theory Spec2Isabelle
  imports Main
begin

section \<open>Values, URIs and raised exceptions\<close>

text \<open>
  The payload values of the protocol (\<open>aiowamp.WAMPType\<close>) are kept abstract as the type
  variable \<open>'v\<close>. A \<open>WAMPList\<close> is a Python list, a \<open>WAMPDict\<close> a Python dict with string
  keys; the dict is an association list in insertion order, so that its emptiness (the
  only thing the code asks of it) is decidable.
\<close>

type_synonym uri = string
type_synonym 'v WAMPList = "'v list"
type_synonym 'v WAMPDict = "(string \<times> 'v) list"

text \<open>
  What a call can raise. \<open>KeyError\<close> and \<open>IndexError\<close> are the built-in subclasses of
  \<open>LookupError\<close>; \<open>LookupError\<close> stands for the class itself and any further subclass.
  \<open>Raised c\<close> is an exception of a class \<open>c\<close> outside that family and outside the ones
  listed. \<open>Dangling\<close> is not a Python exception: it is the outcome of the model when an
  address holds no object, which no Python reference does.
\<close>

datatype raised =
    KeyError
  | IndexError
  | LookupError
  | AttributeError
  | TypeError string
  | InvalidURI
  | Raised string
  | Dangling

fun is_LookupError :: "raised \<Rightarrow> bool" where
  "is_LookupError KeyError = True"
| "is_LookupError IndexError = True"
| "is_LookupError LookupError = True"
| "is_LookupError _ = False"

text \<open>
  Modelled from the spec: \<open>aiowamp.URI.as_uri\<close> (aiowamp/uri.py is not among the sources).
  Section 3 of the specification: a URI is an "immutable string-like value ...
  constructible from a raw string with validation (as_uri)". A URI is represented by its
  string; the validation rule, which the specification does not give, is the parameter
  \<open>valid\<close>.
\<close>

definition as_uri :: "(string \<Rightarrow> bool) \<Rightarrow> string \<Rightarrow> raised + uri" where
  "as_uri valid s = (if valid s then Inr s else Inl InvalidURI)"

text \<open>Python truthiness of an optional list or dict: \<open>None\<close> and the empty container are false.\<close>

fun truthy :: "'a list option \<Rightarrow> bool" where
  "truthy None = False"
| "truthy (Some xs) = (xs \<noteq> [])"

text \<open>The elements of a container that was tested truthy.\<close>

fun elems :: "'a list option \<Rightarrow> 'a list" where
  "elems None = []"
| "elems (Some xs) = xs"

text \<open>\<open>x or None\<close> for an optional list or dict \<open>x\<close>.\<close>

definition or_None :: "'a list option \<Rightarrow> 'a list option" where
  "or_None x = (if truthy x then x else None)"

section \<open>errors.py: the inbound registry\<close>

text \<open>
  \<open>aiowamp.msg.Error\<close>, by the fields the code reads (\<open>message.error\<close>, \<open>message.args\<close>,
  \<open>message.kwargs\<close>); the specification adds \<open>details\<close> and says the message is immutable
  once received, so a message is a value here.
\<close>

record 'v Error_msg =
  error :: uri
  msg_args :: "'v WAMPList"
  msg_kwargs :: "'v WAMPDict"
  msg_details :: "'v WAMPDict"

text \<open>
  The exceptions the inbound path hands out: \<open>ErrorResponse\<close>, whose \<open>__init__\<close> stores the
  message in its only slot, or whatever a registered factory builds (a class name and the
  positional arguments).
\<close>

datatype 'v exception =
    ErrorResponse (message: "'v Error_msg")
  | Exception string "'v list"

text \<open>\<open>ErrorFactory = Callable[[aiowamp.msg.Error], Exception]\<close>: it returns or raises.\<close>

type_synonym 'v ErrorFactory = "'v Error_msg \<Rightarrow> raised + 'v exception"

text \<open>What the decorator of \<open>register_error_response\<close> may be applied to.\<close>

datatype 'v decorated =
    Callable "'v ErrorFactory"
  | NotCallable

text \<open>
  Modelled from the spec: \<open>URIMap\<close> (aiowamp/uri_map.py is not among the sources).
  Section 4.1: "register(uri, value) stores value under uri, overwriting any prior value
  for that exact key. resolve(uri) returns the stored value for uri; if uri was never
  registered, resolution fails with a lookup-not-found signal", with exact-key semantics.
\<close>

type_synonym 'a URIMap = "uri \<rightharpoonup> 'a"

definition URIMap_setitem :: "'a URIMap \<Rightarrow> uri \<Rightarrow> 'a \<Rightarrow> 'a URIMap" where
  "URIMap_setitem m u x = m(u \<mapsto> x)"

definition URIMap_getitem :: "'a URIMap \<Rightarrow> uri \<Rightarrow> raised + 'a" where
  "URIMap_getitem m u = (case m u of None \<Rightarrow> Inl KeyError | Some x \<Rightarrow> Inr x)"

text \<open>
  \<open>register_error_response(uri)(cls)\<close>: the URI is validated when the decorator is made,
  the callable check runs when it is applied. The global \<open>ERR_RESP_MAP\<close> is passed in and
  returned, next to the decorator's own result \<open>cls\<close>.
\<close>

definition register_error_response ::
  "(string \<Rightarrow> bool) \<Rightarrow> string \<Rightarrow> 'v decorated \<Rightarrow> 'v ErrorFactory URIMap
     \<Rightarrow> raised + ('v decorated \<times> 'v ErrorFactory URIMap)" where
  "register_error_response valid u cls ERR_RESP_MAP =
     (case as_uri valid u of
        Inl e \<Rightarrow> Inl e
      | Inr u' \<Rightarrow>
          (case cls of
             NotCallable \<Rightarrow> Inl (TypeError ''error factory must be callable'')
           | Callable f \<Rightarrow> Inr (cls, URIMap_setitem ERR_RESP_MAP u' f)))"

definition get_exception_factory :: "'v ErrorFactory URIMap \<Rightarrow> uri \<Rightarrow> raised + 'v ErrorFactory" where
  "get_exception_factory ERR_RESP_MAP u = URIMap_getitem ERR_RESP_MAP u"

text \<open>
  \<open>error_to_exception\<close>: the lookup and the call of the factory are both inside the
  \<open>try\<close>; \<open>except LookupError\<close> catches a lookup failure of either and lets everything
  else through.
\<close>

definition error_to_exception :: "'v ErrorFactory URIMap \<Rightarrow> 'v Error_msg \<Rightarrow> raised + 'v exception" where
  "error_to_exception ERR_RESP_MAP msg =
     (case (case get_exception_factory ERR_RESP_MAP (error msg) of
              Inl e \<Rightarrow> Inl e
            | Inr f \<Rightarrow> f msg) of
        Inr x \<Rightarrow> Inr x
      | Inl e \<Rightarrow> if is_LookupError e then Inr (ErrorResponse msg) else Inl e)"

section \<open>errors.py: InvocationError\<close>

record 'v InvocationError =
  uri :: uri
  args :: "'v WAMPList option"
  kwargs :: "'v WAMPDict option"
  details :: "'v WAMPDict option"

text \<open>
  \<open>InvocationError.__init__(self, uri, *args, kwargs=None, details=None)\<close>. The star
  arguments arrive as a tuple, here the list \<open>as\<close>.
\<close>

definition InvocationError_init ::
  "(string \<Rightarrow> bool) \<Rightarrow> string \<Rightarrow> 'v list \<Rightarrow> 'v WAMPDict option \<Rightarrow> 'v WAMPDict option
     \<Rightarrow> raised + 'v InvocationError" where
  "InvocationError_init valid u as kw dt =
     (case as_uri valid u of
        Inl e \<Rightarrow> Inl e
      | Inr u' \<Rightarrow>
          Inr \<lparr>uri = u', args = or_None (Some as), kwargs = or_None kw, details = or_None dt\<rparr>)"

text \<open>\<open>", ".join(...)\<close>.\<close>

fun join :: "string \<Rightarrow> string list \<Rightarrow> string" where
  "join sep [] = []"
| "join sep [x] = x"
| "join sep (x # y # ys) = x @ sep @ join sep (y # ys)"

text \<open>
  \<open>InvocationError.__str__\<close>; \<open>str_v\<close> is Python's \<open>str\<close> on the payload values.
\<close>

definition InvocationError_str :: "('v \<Rightarrow> string) \<Rightarrow> 'v InvocationError \<Rightarrow> string" where
  "InvocationError_str str_v self =
     (if truthy (args self)
      then (let args_str = join '', '' (map str_v (elems (args self)))
            in uri self @ '' '' @ args_str)
      else uri self)"

text \<open>Python's \<open>str\<close> on an \<open>int\<close>: decimal digits, a minus sign for a negative number.\<close>

definition digit :: "nat \<Rightarrow> char" where
  "digit d = ''0123456789'' ! d"

fun digits :: "nat \<Rightarrow> string" where
  "digits n = (if n < 10 then [digit n] else digits (n div 10) @ [digit (n mod 10)])"

declare digits.simps [simp del]

definition str_int :: "int \<Rightarrow> string" where
  "str_int i = (if i < 0 then CHR ''-'' # digits (nat (- i)) else digits (nat i))"

section \<open>errors.py: the outbound path and the attachment\<close>

text \<open>
  \<open>set_invocation_error\<close> mutates its argument and \<open>exception_to_invocation_error\<close>
  may hand back the very object it was given, so exception objects live in a store and
  are passed by address. The store is a list, an address is an index into it, and a new
  object is appended: its address is the length of the store before.

  An object of the store is an \<open>InvocationError\<close> (or an instance of a subclass: what
  \<open>isinstance(exc, InvocationError)\<close> accepts) with its four slots, or any other
  exception with its class \<open>type(exc)\<close>, its positional arguments \<open>exc.args\<close> and its
  instance dictionary, in which \<open>setattr\<close> writes and where \<open>getattr\<close> looks first.
\<close>

type_synonym ref = nat

datatype 'v exc_obj =
    InvocationErrorObj "'v InvocationError"
  | ExceptionObj (cls: string) (exc_args: "'v list") (attrs: "string \<rightharpoonup> ref")

text \<open>What \<open>log.info\<close> is called with.\<close>

datatype log_entry =
    Overwriting ref ref
  | NoUriRegistered string uri

text \<open>
  The store, the global \<open>EXC_URI_MAP\<close> (a dict from exception class to URI, looked up by
  the exact class), the classes and the log.

  Of a class only attribute lookup matters here: \<open>class_getattr s c k\<close> is what looking up
  the name \<open>k\<close> on an instance of the class \<open>c\<close> gives when the instance dictionary has
  no entry \<open>k\<close>. That is the attribute \<open>k\<close> of the class or of one of its bases, or else
  what the \<open>__getattr__\<close> of the class returns or raises, or else \<open>AttributeError\<close>.
  (A class that binds the name to a data descriptor, or that overrides
  \<open>__getattribute__\<close> or \<open>__setattr__\<close>, is outside this model.)
\<close>

record 'v state =
  heap :: "'v exc_obj list"
  EXC_URI_MAP :: "string \<rightharpoonup> uri"
  class_getattr :: "string \<Rightarrow> string \<Rightarrow> raised + ref"
  log :: "log_entry list"

definition deref :: "'v state \<Rightarrow> ref \<Rightarrow> 'v exc_obj option" where
  "deref s r = (if r < length (heap s) then Some (heap s ! r) else None)"

definition alloc :: "'v exc_obj \<Rightarrow> 'v state \<Rightarrow> ref \<times> 'v state" where
  "alloc ob s = (length (heap s), s\<lparr>heap := heap s @ [ob]\<rparr>)"

definition store :: "ref \<Rightarrow> 'v exc_obj \<Rightarrow> 'v state \<Rightarrow> 'v state" where
  "store r ob s = s\<lparr>heap := (heap s)[r := ob]\<rparr>"

text \<open>Reading and writing one slot of an \<open>InvocationError\<close> in the store.\<close>

definition get_slot :: "ref \<Rightarrow> ('v InvocationError \<Rightarrow> 'a) \<Rightarrow> 'v state \<Rightarrow> raised + 'a" where
  "get_slot r sel s =
     (case deref s r of
        None \<Rightarrow> Inl Dangling
      | Some (InvocationErrorObj e) \<Rightarrow> Inr (sel e)
      | Some (ExceptionObj c a at) \<Rightarrow> Inl AttributeError)"

definition set_slot ::
  "ref \<Rightarrow> ('v InvocationError \<Rightarrow> 'v InvocationError) \<Rightarrow> 'v state \<Rightarrow> raised + 'v state" where
  "set_slot r upd s =
     (case deref s r of
        None \<Rightarrow> Inl Dangling
      | Some (InvocationErrorObj e) \<Rightarrow> Inr (store r (InvocationErrorObj (upd e)) s)
      | Some (ExceptionObj c a at) \<Rightarrow> Inl AttributeError)"

text \<open>One statement \<open>self.f = other.f\<close>, and a sequence of statements that may raise.\<close>

definition copy_slot ::
  "ref \<Rightarrow> ref \<Rightarrow> ('v InvocationError \<Rightarrow> 'a) \<Rightarrow> ('a \<Rightarrow> 'v InvocationError \<Rightarrow> 'v InvocationError)
     \<Rightarrow> 'v state \<Rightarrow> raised + 'v state" where
  "copy_slot self other sel put s =
     (case get_slot other sel s of
        Inl e \<Rightarrow> Inl e
      | Inr x \<Rightarrow> set_slot self (put x) s)"

definition and_then :: "raised + 'a \<Rightarrow> ('a \<Rightarrow> raised + 'b) \<Rightarrow> raised + 'b" where
  "and_then m f = (case m of Inl e \<Rightarrow> Inl e | Inr x \<Rightarrow> f x)"

text \<open>\<open>InvocationError._init(self, other)\<close>: four assignments, in the source's order.\<close>

definition InvocationError__init :: "ref \<Rightarrow> ref \<Rightarrow> 'v state \<Rightarrow> raised + 'v state" where
  "InvocationError__init self other s =
     and_then (copy_slot self other uri (\<lambda>x e. e\<lparr>uri := x\<rparr>) s) (\<lambda>s1.
     and_then (copy_slot self other args (\<lambda>x e. e\<lparr>args := x\<rparr>) s1) (\<lambda>s2.
     and_then (copy_slot self other kwargs (\<lambda>x e. e\<lparr>kwargs := x\<rparr>) s2) (\<lambda>s3.
     copy_slot self other details (\<lambda>x e. e\<lparr>details := x\<rparr>) s3)))"

definition ATTACHED_ERR_KEY :: string where
  "ATTACHED_ERR_KEY = ''__invocation_error__''"

text \<open>
  \<open>getattr(exc, k)\<close> for an exception of class \<open>c\<close> with the instance dictionary \<open>at\<close>:
  the instance dictionary first, then the class.
\<close>

definition getattr :: "'v state \<Rightarrow> string \<Rightarrow> (string \<rightharpoonup> ref) \<Rightarrow> string \<Rightarrow> raised + ref" where
  "getattr s c at k = (case at k of Some r \<Rightarrow> Inr r | None \<Rightarrow> class_getattr s c k)"

definition setattr :: "(string \<rightharpoonup> ref) \<Rightarrow> string \<Rightarrow> ref \<Rightarrow> (string \<rightharpoonup> ref)" where
  "setattr at k r = at(k \<mapsto> r)"

definition set_invocation_error :: "ref \<Rightarrow> ref \<Rightarrow> 'v state \<Rightarrow> raised + 'v state" where
  "set_invocation_error exc err s =
     (case deref s exc of
        None \<Rightarrow> Inl Dangling
      | Some (InvocationErrorObj e) \<Rightarrow>
          InvocationError__init exc err (s\<lparr>log := log s @ [Overwriting exc err]\<rparr>)
      | Some (ExceptionObj c a at) \<Rightarrow>
          Inr (store exc (ExceptionObj c a (setattr at ATTACHED_ERR_KEY err)) s))"

definition get_exception_uri :: "'v state \<Rightarrow> string \<Rightarrow> raised + uri" where
  "get_exception_uri s c = (case EXC_URI_MAP s c of None \<Rightarrow> Inl KeyError | Some u \<Rightarrow> Inr u)"

text \<open>
  The second half of \<open>exception_to_invocation_error\<close>: the URI of the class, or
  \<open>RUNTIME_ERROR\<close> and a log line when the lookup fails, then a new \<open>InvocationError\<close>
  from the URI and \<open>exc.args\<close>. \<open>aiowamp.uri.RUNTIME_ERROR\<close> is a constant of a file that is
  not among the sources; it is a parameter.
\<close>

definition from_exception_type ::
  "(string \<Rightarrow> bool) \<Rightarrow> uri \<Rightarrow> string \<Rightarrow> 'v list \<Rightarrow> 'v state \<Rightarrow> raised + (ref \<times> 'v state)" where
  "from_exception_type valid RUNTIME_ERROR c a s =
     and_then
       (case get_exception_uri s c of
          Inr u \<Rightarrow> Inr (u, s)
        | Inl e \<Rightarrow>
            if is_LookupError e
            then Inr (RUNTIME_ERROR, s\<lparr>log := log s @ [NoUriRegistered c RUNTIME_ERROR]\<rparr>)
            else Inl e)
       (\<lambda>(u, s1).
          and_then (InvocationError_init valid u a None None)
            (\<lambda>e. Inr (alloc (InvocationErrorObj e) s1)))"

definition exception_to_invocation_error ::
  "(string \<Rightarrow> bool) \<Rightarrow> uri \<Rightarrow> ref \<Rightarrow> 'v state \<Rightarrow> raised + (ref \<times> 'v state)" where
  "exception_to_invocation_error valid RUNTIME_ERROR exc s =
     (case deref s exc of
        None \<Rightarrow> Inl Dangling
      | Some (InvocationErrorObj e) \<Rightarrow> Inr (exc, s)
      | Some (ExceptionObj c a at) \<Rightarrow>
          (case getattr s c at ATTACHED_ERR_KEY of
             Inr r \<Rightarrow> Inr (r, s)
           | Inl e \<Rightarrow>
               if e = AttributeError
               then from_exception_type valid RUNTIME_ERROR c a s
               else Inl e))"

section \<open>client/event.py: SubscriptionEvent\<close>

text \<open>
  A Python sequence value, to tell the tuple that \<open>tuple(...)\<close> and \<open>()\<close> build from the
  list a message usually carries.
\<close>

datatype 'v pyseq =
    PyList "'v list"
  | PyTuple "'v list"

fun items :: "'v pyseq \<Rightarrow> 'v list" where
  "items (PyList xs) = xs"
| "items (PyTuple xs) = xs"

fun seq_truthy :: "'v pyseq option \<Rightarrow> bool" where
  "seq_truthy None = False"
| "seq_truthy (Some q) = (items q \<noteq> [])"

text \<open>
  \<open>aiowamp.msg.Event\<close>, by the fields the constructor reads. Each payload field may be
  \<open>None\<close>, as the constructor's own tests of \<open>msg.args\<close> and \<open>msg.kwargs\<close> allow.
\<close>

record 'v Event_msg =
  ev_publication_id :: int
  ev_args :: "'v pyseq option"
  ev_kwargs :: "'v WAMPDict option"
  ev_details :: "'v WAMPDict option"

text \<open>The six private slots of \<open>SubscriptionEvent\<close>.\<close>

record ('c, 'v) SubscriptionEvent =
  slot_client :: 'c
  slot_topic :: uri
  slot_publication_id :: int
  slot_args :: "'v pyseq"
  slot_kwargs :: "'v WAMPDict"
  slot_details :: "'v WAMPDict option"

definition SubscriptionEvent_init :: "'c \<Rightarrow> 'v Event_msg \<Rightarrow> uri \<Rightarrow> ('c, 'v) SubscriptionEvent" where
  "SubscriptionEvent_init client msg topic =
     \<lparr>slot_client = client,
      slot_topic = topic,
      slot_publication_id = ev_publication_id msg,
      slot_args = (if seq_truthy (ev_args msg)
                   then (case ev_args msg of Some q \<Rightarrow> PyTuple (items q) | None \<Rightarrow> PyTuple [])
                   else PyTuple []),
      slot_kwargs = (if truthy (ev_kwargs msg) then elems (ev_kwargs msg) else []),
      slot_details = ev_details msg\<rparr>"

text \<open>The properties \<open>args\<close>, \<open>kwargs\<close> and \<open>details\<close>.\<close>

definition SubscriptionEvent_args :: "('c, 'v) SubscriptionEvent \<Rightarrow> 'v pyseq" where
  "SubscriptionEvent_args self = slot_args self"

definition SubscriptionEvent_kwargs :: "('c, 'v) SubscriptionEvent \<Rightarrow> 'v WAMPDict" where
  "SubscriptionEvent_kwargs self = slot_kwargs self"

definition SubscriptionEvent_details :: "('c, 'v) SubscriptionEvent \<Rightarrow> 'v WAMPDict option" where
  "SubscriptionEvent_details self = slot_details self"

section \<open>The inbound path\<close>

lemma register_error_response_other:
  "register_error_response valid u d m = Inr (c, m') \<Longrightarrow> u' \<noteq> u \<Longrightarrow> m' u' = m u'"
  by (auto simp: register_error_response_def as_uri_def URIMap_setitem_def
           split: if_splits decorated.splits)

text \<open>
  Claim C2. When the URI of an error message has no entry in the inbound registry,
  \<open>error_to_exception\<close> does not raise: it returns an \<open>ErrorResponse\<close> whose message is
  the message it was given.
\<close>

theorem error_to_exception_unregistered:
  "ERR_RESP_MAP (error msg) = None \<Longrightarrow>
     error_to_exception ERR_RESP_MAP msg = Inr (ErrorResponse msg)"
  by (simp add: error_to_exception_def get_exception_factory_def URIMap_getitem_def)

theorem error_to_exception_unregistered_witness:
  "error_to_exception
     [''com.example.known'' \<mapsto> (\<lambda>m. Inr (Exception ''Known'' (msg_args m)))]
     \<lparr>error = ''com.example.unknown'', msg_args = [1 :: int], msg_kwargs = [], msg_details = []\<rparr>
   = Inr (ErrorResponse
       \<lparr>error = ''com.example.unknown'', msg_args = [1], msg_kwargs = [], msg_details = []\<rparr>)"
  using error_to_exception_unregistered
    [of "[''com.example.known'' \<mapsto> (\<lambda>m. Inr (Exception ''Known'' (msg_args m)))]"
        "\<lparr>error = ''com.example.unknown'', msg_args = [1 :: int], msg_kwargs = [], msg_details = []\<rparr>"]
  by simp



text \<open>
  Claim C9. When the factory registered for the URI of a message raises on it, a
  \<open>LookupError\<close> (or an instance of a subclass) is caught and an \<open>ErrorResponse\<close> with the
  message is returned; any other exception of the factory reaches the caller.
\<close>

theorem error_to_exception_factory_raises:
  "ERR_RESP_MAP (error msg) = Some f \<Longrightarrow> f msg = Inl e \<Longrightarrow>
     error_to_exception ERR_RESP_MAP msg =
       (if is_LookupError e then Inr (ErrorResponse msg) else Inl e)"
  by (simp add: error_to_exception_def get_exception_factory_def URIMap_getitem_def)

theorem error_to_exception_factory_raises_witness:
  "error_to_exception [''com.example.known'' \<mapsto> (\<lambda>m. Inl KeyError)]
       \<lparr>error = ''com.example.known'', msg_args = [7 :: int], msg_kwargs = [], msg_details = []\<rparr>
     = Inr (ErrorResponse
         \<lparr>error = ''com.example.known'', msg_args = [7], msg_kwargs = [], msg_details = []\<rparr>) \<and>
   error_to_exception [''com.example.known'' \<mapsto> (\<lambda>m. Inl (Raised ''ValueError''))]
       \<lparr>error = ''com.example.known'', msg_args = [7 :: int], msg_kwargs = [], msg_details = []\<rparr>
     = Inl (Raised ''ValueError'')"
  using error_to_exception_factory_raises
    [of "[''com.example.known'' \<mapsto> (\<lambda>m. Inl KeyError)]"
        "\<lparr>error = ''com.example.known'', msg_args = [7 :: int], msg_kwargs = [], msg_details = []\<rparr>"
        "\<lambda>m. Inl KeyError" KeyError]
     error_to_exception_factory_raises
    [of "[''com.example.known'' \<mapsto> (\<lambda>m. Inl (Raised ''ValueError''))]"
        "\<lparr>error = ''com.example.known'', msg_args = [7 :: int], msg_kwargs = [], msg_details = []\<rparr>"
        "\<lambda>m. Inl (Raised ''ValueError'')" "Raised ''ValueError''"]
  by simp

section \<open>InvocationError: construction and rendering\<close>

text \<open>
  Claim C7. Every \<open>InvocationError\<close> that the constructor builds has, in each of \<open>args\<close>,
  \<open>kwargs\<close> and \<open>details\<close>, either \<open>None\<close> or a non-empty container; no positional
  arguments give \<open>args = None\<close>, and \<open>kwargs\<close> or \<open>details\<close> left out or passed empty give
  \<open>None\<close>.
\<close>

theorem InvocationError_init_absent_or_nonempty:
  "InvocationError_init valid u as kw dt = Inr e \<Longrightarrow>
     (args e = None \<or> (\<exists>xs. args e = Some xs \<and> xs \<noteq> [])) \<and>
     (kwargs e = None \<or> (\<exists>d. kwargs e = Some d \<and> d \<noteq> [])) \<and>
     (details e = None \<or> (\<exists>d. details e = Some d \<and> d \<noteq> [])) \<and>
     (as = [] \<longrightarrow> args e = None) \<and>
     (kw = None \<or> kw = Some [] \<longrightarrow> kwargs e = None) \<and>
     (dt = None \<or> dt = Some [] \<longrightarrow> details e = None)"
  by (cases kw; cases dt)
     (auto simp: InvocationError_init_def as_uri_def or_None_def split: if_splits)

theorem InvocationError_init_absent_or_nonempty_witness:
  "InvocationError_init ((\<noteq>) []) ''com.example.bad_arg'' ([] :: int list) (Some []) None
     = Inr \<lparr>uri = ''com.example.bad_arg'', args = None, kwargs = None, details = None\<rparr> \<and>
   args \<lparr>uri = ''com.example.bad_arg'', args = None :: int list option,
          kwargs = None, details = None\<rparr> = None \<and>
   kwargs \<lparr>uri = ''com.example.bad_arg'', args = None :: int list option,
          kwargs = None, details = None\<rparr> = None \<and>
   details \<lparr>uri = ''com.example.bad_arg'', args = None :: int list option,
          kwargs = None, details = None\<rparr> = None"
proof -
  have made: "InvocationError_init ((\<noteq>) []) ''com.example.bad_arg'' ([] :: int list) (Some []) None
     = Inr \<lparr>uri = ''com.example.bad_arg'', args = None, kwargs = None, details = None\<rparr>"
    by (simp add: InvocationError_init_def as_uri_def or_None_def)
  from InvocationError_init_absent_or_nonempty [OF made] made show ?thesis by blast
qed

text \<open>
  Claim C8. An \<open>InvocationError\<close> renders as its URI, a space and the args joined by a
  comma and a space when it has args, and as the URI alone when \<open>args\<close> is \<open>None\<close> (or
  empty); \<open>kwargs\<close> and \<open>details\<close> have no part in the rendering. Constructing
  \<open>InvocationError("com.example.bad_arg", 1, 2, kwargs={"x": 3})\<close> (the URI being a valid
  one) and rendering it gives \<open>"com.example.bad_arg 1, 2"\<close>.
\<close>

theorem InvocationError_str_rendering:
  "(\<forall>a as. args e = Some (a # as) \<longrightarrow>
       InvocationError_str str_v e = uri e @ '' '' @ join '', '' (map str_v (a # as))) \<and>
   (args e = None \<or> args e = Some [] \<longrightarrow> InvocationError_str str_v e = uri e) \<and>
   InvocationError_str str_v (e\<lparr>kwargs := kw, details := dt\<rparr>) = InvocationError_str str_v e \<and>
   (valid ''com.example.bad_arg'' \<longrightarrow>
      (\<exists>x. InvocationError_init valid ''com.example.bad_arg'' [1, 2] (Some [(''x'', 3)]) None = Inr x \<and>
           InvocationError_str str_int x = ''com.example.bad_arg 1, 2''))"
  by (auto simp: InvocationError_str_def InvocationError_init_def as_uri_def or_None_def
                 str_int_def digits.simps digit_def)

text \<open>The theorem of claim C8 at the example of the claim and at one without args.\<close>

theorem InvocationError_str_rendering_witness:
  "InvocationError_init ((\<noteq>) []) ''com.example.bad_arg'' [1, 2 :: int] (Some [(''x'', 3)]) None
     = Inr \<lparr>uri = ''com.example.bad_arg'', args = Some [1, 2], kwargs = Some [(''x'', 3)],
            details = None\<rparr> \<and>
   InvocationError_str str_int
       \<lparr>uri = ''com.example.bad_arg'', args = Some [1, 2], kwargs = Some [(''x'', 3)],
        details = None\<rparr> = ''com.example.bad_arg 1, 2'' \<and>
   InvocationError_str str_int
       \<lparr>uri = ''com.example.bad_arg'', args = None, kwargs = Some [(''x'', 3)],
        details = None\<rparr> = ''com.example.bad_arg''"
proof -
  define e1 :: "int InvocationError" where
    "e1 = \<lparr>uri = ''com.example.bad_arg'', args = Some [1, 2], kwargs = Some [(''x'', 3)],
           details = None\<rparr>"
  define e2 :: "int InvocationError" where
    "e2 = \<lparr>uri = ''com.example.bad_arg'', args = None, kwargs = Some [(''x'', 3)],
           details = None\<rparr>"
  define v :: "string \<Rightarrow> bool" where "v = (\<noteq>) []"
  note T1 = InvocationError_str_rendering [where e = e1 and str_v = str_int and valid = v]
  note T2 = InvocationError_str_rendering [where e = e2 and str_v = str_int and valid = v]
  have ok: "v ''com.example.bad_arg''" by (simp add: v_def)
  have made: "InvocationError_init v ''com.example.bad_arg'' [1, 2 :: int] (Some [(''x'', 3)]) None
     = Inr e1"
    by (simp add: InvocationError_init_def as_uri_def or_None_def v_def e1_def)
  from T1 [THEN conjunct2, THEN conjunct2, THEN conjunct2, rule_format, OF ok] made
  have r1: "InvocationError_str str_int e1 = ''com.example.bad_arg 1, 2''" by auto
  have "args e2 = None \<or> args e2 = Some []" by (simp add: e2_def)
  from T2 [THEN conjunct2, THEN conjunct1, rule_format, OF this]
  have r2: "InvocationError_str str_int e2 = ''com.example.bad_arg''" by (simp add: e2_def)
  from made r1 r2 show ?thesis unfolding e1_def e2_def v_def by (intro conjI)
qed

section \<open>The store\<close>

lemma deref_store:
  "deref (store r ob s) y = (if y = r \<and> r < length (heap s) then Some ob else deref s y)"
  by (simp add: deref_def store_def)

lemma deref_log [simp]: "deref (s\<lparr>log := l\<rparr>) y = deref s y"
  by (simp add: deref_def)

lemma deref_Some_less: "deref s r = Some ob \<Longrightarrow> r < length (heap s)"
  by (simp add: deref_def split: if_splits)

lemma store_store: "store r ob (store r ob' s) = store r ob s"
  by (simp add: store_def)

lemma store_same: "deref s r = Some ob \<Longrightarrow> store r ob s = s"
proof -
  assume "deref s r = Some ob"
  then have "ob = heap s ! r" by (simp add: deref_def split: if_splits)
  then show ?thesis by (simp add: store_def)
qed

lemma overwrite_all_slots:
  "a\<lparr>uri := uri b, args := args b, kwargs := kwargs b, details := details b\<rparr> = (b :: 'v InvocationError)"
  by (cases a; cases b) simp

lemma copy_slot_ok:
  "deref s self = Some (InvocationErrorObj a) \<Longrightarrow> deref s other = Some (InvocationErrorObj b) \<Longrightarrow>
     copy_slot self other sel put s = Inr (store self (InvocationErrorObj (put (sel b) a)) s)"
  by (simp add: copy_slot_def get_slot_def set_slot_def)

lemma InvocationError__init_ok:
  assumes self: "deref s self = Some (InvocationErrorObj a)"
      and other: "deref s other = Some (InvocationErrorObj b)"
  shows "InvocationError__init self other s = Inr (store self (InvocationErrorObj b) s)"
proof (cases "other = self")
  case True
  with self other have ab: "b = a" by simp
  have same: "store self (InvocationErrorObj a) s = s" using self by (rule store_same)
  show ?thesis
    using self True ab same
    by (simp add: InvocationError__init_def and_then_def copy_slot_ok [where a = a and b = a])
next
  case False
  have lt: "self < length (heap s)" using self by (rule deref_Some_less)
  show ?thesis
    using self other False lt
    by (simp add: InvocationError__init_def and_then_def copy_slot_ok deref_store store_store overwrite_all_slots)
qed

lemma InvocationError__init_not_InvocationError:
  "deref s other = Some (ExceptionObj c a at) \<Longrightarrow> InvocationError__init self other s = Inl AttributeError"
  by (simp add: InvocationError__init_def and_then_def copy_slot_def get_slot_def)





lemma set_invocation_error_InvocationError:
  assumes "deref s x = Some (InvocationErrorObj ix)" and "deref s e = Some (InvocationErrorObj ie)"
  shows "set_invocation_error x e s =
           Inr (store x (InvocationErrorObj ie) (s\<lparr>log := log s @ [Overwriting x e]\<rparr>))"
  using assms
  by (simp add: set_invocation_error_def InvocationError__init_ok [where a = ix and b = ie])

lemma set_invocation_error_other:
  assumes "deref s x = Some (ExceptionObj c a at)"
  shows "set_invocation_error x e s =
           Inr (store x (ExceptionObj c a (at(ATTACHED_ERR_KEY \<mapsto> e))) s)"
  using assms by (simp add: set_invocation_error_def setattr_def)

lemma length_heap_store: "length (heap (store r ob s)) = length (heap s)"
  by (simp add: store_def)

text \<open>
  An exception other than \<open>AttributeError\<close> that the lookup at the class raises is not
  caught by \<open>except AttributeError\<close>.
\<close>

lemma exception_to_invocation_error_lookup_raises:
  "deref s x = Some (ExceptionObj c a at) \<Longrightarrow> at ATTACHED_ERR_KEY = None \<Longrightarrow>
   class_getattr s c ATTACHED_ERR_KEY = Inl e \<Longrightarrow> e \<noteq> AttributeError \<Longrightarrow>
     exception_to_invocation_error valid R x s = Inl e"
  by (simp add: exception_to_invocation_error_def getattr_def)

section \<open>The outbound path\<close>






section \<open>The attachment\<close>

text \<open>
  Claim C5. For an exception \<open>x\<close> that is no \<open>InvocationError\<close> and an \<open>InvocationError\<close>
  \<open>e\<close>, \<open>set_invocation_error(x, e)\<close> succeeds, and afterwards
  \<open>exception_to_invocation_error(x)\<close> returns the address \<open>e\<close> itself and changes
  nothing. The class and the positional arguments of \<open>x\<close> are as before (its instance
  dictionary has the one new entry), \<open>e\<close> is as before, and so is every other object.
\<close>

theorem set_invocation_error_attaches:
  assumes x: "deref s x = Some (ExceptionObj c a at)"
      and e: "deref s e = Some (InvocationErrorObj ie)"
  shows "\<exists>s'. set_invocation_error x e s = Inr s' \<and>
           exception_to_invocation_error valid R x s' = Inr (e, s') \<and>
           deref s' x = Some (ExceptionObj c a (at(ATTACHED_ERR_KEY \<mapsto> e))) \<and>
           deref s' e = Some (InvocationErrorObj ie) \<and>
           (\<forall>y. y \<noteq> x \<longrightarrow> deref s' y = deref s y)"
proof -
  let ?s' = "store x (ExceptionObj c a (at(ATTACHED_ERR_KEY \<mapsto> e))) s"
  have lt: "x < length (heap s)" using x by (rule deref_Some_less)
  have ne: "e \<noteq> x" using x e by auto
  have set: "set_invocation_error x e s = Inr ?s'"
    using x by (rule set_invocation_error_other)
  have at_x: "deref ?s' x = Some (ExceptionObj c a (at(ATTACHED_ERR_KEY \<mapsto> e)))"
    using lt by (simp add: deref_store)
  have others: "\<forall>y. y \<noteq> x \<longrightarrow> deref ?s' y = deref s y"
    by (simp add: deref_store)
  have at_e: "deref ?s' e = Some (InvocationErrorObj ie)"
    using others ne e by simp
  have "exception_to_invocation_error valid R x ?s' = Inr (e, ?s')"
    using at_x by (simp add: exception_to_invocation_error_def getattr_def)
  with set at_x at_e others show ?thesis by blast
qed

text \<open>The theorem of claim C5 on a \<open>ValueError(1)\<close> whose class is registered.\<close>

theorem set_invocation_error_attaches_witness:
  "\<exists>s'. set_invocation_error 0 1
       \<lparr>heap = [ExceptionObj ''ValueError'' [1 :: int] Map.empty,
                InvocationErrorObj \<lparr>uri = ''com.example.bad'', args = Some [7], kwargs = None,
                                    details = None\<rparr>],
        EXC_URI_MAP = [''ValueError'' \<mapsto> ''com.example.value''],
        class_getattr = (\<lambda>c k. Inl AttributeError), log = []\<rparr> = Inr s' \<and>
     exception_to_invocation_error ((\<noteq>) []) ''wamp.error.runtime_error'' 0 s' = Inr (1, s') \<and>
     deref s' 0 = Some (ExceptionObj ''ValueError'' [1] [ATTACHED_ERR_KEY \<mapsto> 1]) \<and>
     deref s' 1 = Some (InvocationErrorObj \<lparr>uri = ''com.example.bad'', args = Some [7],
                                             kwargs = None, details = None\<rparr>)"
proof -
  define s :: "int state" where
    "s = \<lparr>heap = [ExceptionObj ''ValueError'' [1 :: int] Map.empty,
                InvocationErrorObj \<lparr>uri = ''com.example.bad'', args = Some [7], kwargs = None,
                                    details = None\<rparr>],
        EXC_URI_MAP = [''ValueError'' \<mapsto> ''com.example.value''],
        class_getattr = (\<lambda>c k. Inl AttributeError), log = []\<rparr>"
  define R where "R = ''wamp.error.runtime_error''"
  define v :: "string \<Rightarrow> bool" where "v = (\<noteq>) []"
  have h1: "deref s 0 = Some (ExceptionObj ''ValueError'' [1] Map.empty)"
    by (simp add: deref_def s_def)
  have h2: "deref s 1 = Some (InvocationErrorObj \<lparr>uri = ''com.example.bad'', args = Some [7],
                                             kwargs = None, details = None\<rparr>)"
    by (simp add: deref_def s_def)
  have "\<exists>s'. set_invocation_error 0 1 s = Inr s' \<and>
           exception_to_invocation_error v R 0 s' = Inr (1, s') \<and>
           deref s' 0 = Some (ExceptionObj ''ValueError'' [1] (Map.empty(ATTACHED_ERR_KEY \<mapsto> 1))) \<and>
           deref s' 1 = Some (InvocationErrorObj \<lparr>uri = ''com.example.bad'', args = Some [7],
                                             kwargs = None, details = None\<rparr>) \<and>
           (\<forall>y. y \<noteq> 0 \<longrightarrow> deref s' y = deref s y)"
    by (rule set_invocation_error_attaches [OF h1 h2])
  then have "\<exists>s'. set_invocation_error 0 1 s = Inr s' \<and>
           exception_to_invocation_error v R 0 s' = Inr (1, s') \<and>
           deref s' 0 = Some (ExceptionObj ''ValueError'' [1] (Map.empty(ATTACHED_ERR_KEY \<mapsto> 1))) \<and>
           deref s' 1 = Some (InvocationErrorObj \<lparr>uri = ''com.example.bad'', args = Some [7],
                                             kwargs = None, details = None\<rparr>)"
    by blast
  then show ?thesis unfolding s_def R_def v_def .
qed

text \<open>
  Claim C6. For \<open>InvocationError\<close>s \<open>x\<close>, \<open>e1\<close> and \<open>e2\<close> (any of which may be the same
  object), \<open>set_invocation_error(x, e1)\<close> followed by \<open>set_invocation_error(x, e2)\<close>
  succeeds; then \<open>x\<close> and \<open>e2\<close> have the same fields, which are those \<open>e2\<close> had at the
  start when \<open>e2\<close> is not \<open>x\<close>. The address \<open>x\<close> still holds an \<open>InvocationError\<close>, no
  object was allocated, and no other object changed.
\<close>

theorem set_invocation_error_overwrites:
  assumes x: "deref s x = Some (InvocationErrorObj ix)"
      and e1: "deref s e1 = Some (InvocationErrorObj i1)"
      and e2: "deref s e2 = Some (InvocationErrorObj i2)"
  shows "\<exists>s1 s2. set_invocation_error x e1 s = Inr s1 \<and>
           set_invocation_error x e2 s1 = Inr s2 \<and>
           deref s2 x = deref s2 e2 \<and>
           (\<exists>i. deref s2 x = Some (InvocationErrorObj i)) \<and>
           (e2 \<noteq> x \<longrightarrow> deref s2 x = Some (InvocationErrorObj i2)) \<and>
           length (heap s2) = length (heap s) \<and>
           (\<forall>y. y \<noteq> x \<longrightarrow> deref s2 y = deref s y)"
proof -
  let ?l1 = "s\<lparr>log := log s @ [Overwriting x e1]\<rparr>"
  let ?s1 = "store x (InvocationErrorObj i1) ?l1"
  let ?j = "if e2 = x then i1 else i2"
  let ?l2 = "?s1\<lparr>log := log ?s1 @ [Overwriting x e2]\<rparr>"
  let ?s2 = "store x (InvocationErrorObj ?j) ?l2"
  have lt: "x < length (heap s)" using x by (rule deref_Some_less)
  have step1: "set_invocation_error x e1 s = Inr ?s1"
    using x e1 by (rule set_invocation_error_InvocationError)
  have x1: "deref ?s1 x = Some (InvocationErrorObj i1)"
    using lt by (simp add: deref_store)
  have e2_1: "deref ?s1 e2 = Some (InvocationErrorObj ?j)"
    using lt e2 by (simp add: deref_store)
  have step2: "set_invocation_error x e2 ?s1 = Inr ?s2"
    using x1 e2_1 by (rule set_invocation_error_InvocationError)
  have lt1: "x < length (heap ?l2)" using lt by (simp add: store_def)
  have x2: "deref ?s2 x = Some (InvocationErrorObj ?j)"
    using lt1 by (simp only: deref_store) simp
  have others: "\<forall>y. y \<noteq> x \<longrightarrow> deref ?s2 y = deref s y"
    by (simp add: deref_store)
  have e2_2: "deref ?s2 e2 = Some (InvocationErrorObj ?j)"
  proof (cases "e2 = x")
    case True then show ?thesis using x2 by simp
  next
    case False then show ?thesis using others e2 by simp
  qed
  have len: "length (heap ?s2) = length (heap s)" by (simp add: store_def)
  have "deref ?s2 x = deref ?s2 e2" using x2 e2_2 by simp
  moreover have "\<exists>i. deref ?s2 x = Some (InvocationErrorObj i)" using x2 by blast
  moreover have "e2 \<noteq> x \<longrightarrow> deref ?s2 x = Some (InvocationErrorObj i2)"
  proof (cases "e2 = x")
    case True then show ?thesis by simp
  next
    case False with x2 show ?thesis by simp
  qed
  ultimately show ?thesis using step1 step2 len others by blast
qed

text \<open>The theorem of claim C6 on three distinct \<open>InvocationError\<close>s.\<close>

theorem set_invocation_error_overwrites_witness:
  "\<exists>s1 s2. set_invocation_error 0 1
       \<lparr>heap = [InvocationErrorObj \<lparr>uri = ''com.example.x'', args = None, kwargs = None,
                                    details = None\<rparr>,
                InvocationErrorObj \<lparr>uri = ''com.example.one'', args = Some [1 :: int],
                                    kwargs = None, details = None\<rparr>,
                InvocationErrorObj \<lparr>uri = ''com.example.two'', args = Some [2],
                                    kwargs = Some [(''k'', 3)], details = None\<rparr>],
        EXC_URI_MAP = Map.empty, class_getattr = (\<lambda>c k. Inl AttributeError), log = []\<rparr> = Inr s1 \<and>
     set_invocation_error 0 2 s1 = Inr s2 \<and>
     deref s2 0 = Some (InvocationErrorObj \<lparr>uri = ''com.example.two'', args = Some [2],
                                    kwargs = Some [(''k'', 3)], details = None\<rparr>) \<and>
     deref s2 0 = deref s2 2 \<and> length (heap s2) = 3"
proof -
  define s :: "int state" where
    "s = \<lparr>heap = [InvocationErrorObj \<lparr>uri = ''com.example.x'', args = None, kwargs = None,
                                    details = None\<rparr>,
                InvocationErrorObj \<lparr>uri = ''com.example.one'', args = Some [1 :: int],
                                    kwargs = None, details = None\<rparr>,
                InvocationErrorObj \<lparr>uri = ''com.example.two'', args = Some [2],
                                    kwargs = Some [(''k'', 3)], details = None\<rparr>],
        EXC_URI_MAP = Map.empty, class_getattr = (\<lambda>c k. Inl AttributeError), log = []\<rparr>"
  define i2 :: "int InvocationError" where
    "i2 = \<lparr>uri = ''com.example.two'', args = Some [2], kwargs = Some [(''k'', 3)], details = None\<rparr>"
  have h0: "deref s 0 = Some (InvocationErrorObj \<lparr>uri = ''com.example.x'', args = None,
                                kwargs = None, details = None\<rparr>)"
    by (simp add: deref_def s_def)
  have h1: "deref s 1 = Some (InvocationErrorObj \<lparr>uri = ''com.example.one'', args = Some [1],
                                kwargs = None, details = None\<rparr>)"
    by (simp add: deref_def s_def)
  have h2: "deref s 2 = Some (InvocationErrorObj i2)"
    by (simp add: deref_def s_def i2_def)
  have len: "length (heap s) = 3" by (simp add: s_def)
  have ne: "(2 :: nat) \<noteq> 0" by simp
  have "\<exists>s1 s2. set_invocation_error 0 1 s = Inr s1 \<and>
           set_invocation_error 0 2 s1 = Inr s2 \<and>
           deref s2 0 = deref s2 2 \<and>
           (\<exists>i. deref s2 0 = Some (InvocationErrorObj i)) \<and>
           (2 \<noteq> (0 :: nat) \<longrightarrow> deref s2 0 = Some (InvocationErrorObj i2)) \<and>
           length (heap s2) = length (heap s) \<and>
           (\<forall>y. y \<noteq> 0 \<longrightarrow> deref s2 y = deref s y)"
    by (rule set_invocation_error_overwrites [OF h0 h1 h2])
  with len ne have "\<exists>s1 s2. set_invocation_error 0 1 s = Inr s1 \<and>
           set_invocation_error 0 2 s1 = Inr s2 \<and>
           deref s2 0 = Some (InvocationErrorObj i2) \<and>
           deref s2 0 = deref s2 2 \<and> length (heap s2) = 3"
    by metis
  then show ?thesis unfolding s_def i2_def .
qed

section \<open>SubscriptionEvent\<close>

text \<open>
  Claim C10. The \<open>args\<close> property of a constructed \<open>SubscriptionEvent\<close> is always a tuple,
  empty when the message's args are \<open>None\<close> or empty and otherwise holding the message's
  args; the \<open>kwargs\<close> property is always a dict, empty when the message's kwargs are
  \<open>None\<close>; the \<open>details\<close> property is the message's details as they are, \<open>None\<close> included.
\<close>

theorem SubscriptionEvent_payload:
  "SubscriptionEvent_args (SubscriptionEvent_init client msg topic)
     = PyTuple (case ev_args msg of None \<Rightarrow> [] | Some q \<Rightarrow> items q) \<and>
   SubscriptionEvent_kwargs (SubscriptionEvent_init client msg topic)
     = (case ev_kwargs msg of None \<Rightarrow> [] | Some d \<Rightarrow> d) \<and>
   SubscriptionEvent_details (SubscriptionEvent_init client msg topic) = ev_details msg"
  by (cases "ev_args msg"; cases "ev_kwargs msg")
     (simp_all add: SubscriptionEvent_args_def SubscriptionEvent_kwargs_def
                SubscriptionEvent_details_def SubscriptionEvent_init_def)

end
